theory Spec2Isabelle
  imports Complex_Main "HOL-Library.Multiset"
begin

section \<open>The regression error-bias adapter (MIGRATION\_EXAMPLE\_ERROR\_BIAS\_TABLE.py)\<close>

text \<open>
  The module wraps the legacy metric \<^verbatim>\<open>RegressionErrorBiasTable\<close> for the new report
  interface. Python values are modelled as follows:
  \<^item> \<^verbatim>\<open>Optional[T]\<close> is \<open>T option\<close>, \<^verbatim>\<open>None\<close> is \<open>None\<close>;
  \<^item> \<^verbatim>\<open>str\<close> is \<open>string\<close>, \<^verbatim>\<open>List[T]\<close> is \<open>T list\<close>;
  \<^item> a \<^verbatim>\<open>dict\<close> is the list of its items in iteration order (its keys are distinct),
    so that \<^verbatim>\<open>len(d)\<close> is the length of that list;
  \<^item> a \<^verbatim>\<open>float\<close> is a \<open>real\<close>; the only floats the module computes are \<^verbatim>\<open>0.0\<close> and
    \<^verbatim>\<open>float(n)\<close> for the length \<open>n\<close> of a dict, which is exact (every length is below
    \<open>2 ^ 53\<close>);
  \<^item> a raised exception is the \<open>Inl\<close> branch of a sum.
\<close>

subsection \<open>Data\<close>

text \<open>The class \<^verbatim>\<open>RegressionErrorBiasTable\<close> (lines 48--82): three fields with defaults.\<close>

record RegressionErrorBiasTable =
  regression_name :: string
  columns :: "string list option"
  top_error :: "real option"

text \<open>
  Its keyword constructor: an argument that the caller leaves out (\<open>None\<close> here) takes the
  default written at the field, lines 75, 78 and 81.
\<close>

definition new_RegressionErrorBiasTable ::
  "string option \<Rightarrow> string list option option \<Rightarrow> real option option \<Rightarrow> RegressionErrorBiasTable" where
  "new_RegressionErrorBiasTable rn cols te =
     \<lparr>regression_name = (case rn of None \<Rightarrow> ''default'' | Some n \<Rightarrow> n),
      columns = (case cols of None \<Rightarrow> None | Some c \<Rightarrow> c),
      top_error = (case te of None \<Rightarrow> None | Some t \<Rightarrow> t)\<rparr>"

text \<open>
  The calculation object \<^verbatim>\<open>self\<close> of \<^verbatim>\<open>RegressionErrorBiasTableCalculation\<close>: the module
  reads one attribute of it, \<^verbatim>\<open>self.metric\<close>.
\<close>

record RegressionErrorBiasTableCalculation =
  metric :: RegressionErrorBiasTable

text \<open>
  The legacy result \<^verbatim>\<open>RegressionErrorBiasTableResults\<close> is imported (lines 42--44). The
  module reads its attribute \<^verbatim>\<open>error_bias\<close>, an optional dict from feature name to bias
  statistics; the type of the statistics is left open, and the other fields of the legacy
  class are the extension part of the record.
\<close>

type_synonym 'v py_dict = "(string \<times> 'v) list"

record 'v RegressionErrorBiasTableResults =
  error_bias :: "'v py_dict option"

definition py_len :: "'v py_dict \<Rightarrow> nat" where
  "py_len d = length d"

text \<open>
  Modelled from the spec: the result type \<^verbatim>\<open>SingleValue\<close> and the inherited method
  \<^verbatim>\<open>self.result\<close> are imported, not defined in the module. The spec gives
  ``a scalar-valued result object with a \<^verbatim>\<open>.value\<close> float field''.
\<close>

record SingleValue =
  val :: real

definition result :: "RegressionErrorBiasTableCalculation \<Rightarrow> real \<Rightarrow> SingleValue" where
  "result self v = \<lparr>val = v\<rparr>"

subsection \<open>The methods of the adapter\<close>

text \<open>\<^verbatim>\<open>task_name\<close>, lines 108--115.\<close>

definition task_name :: "RegressionErrorBiasTableCalculation \<Rightarrow> string" where
  "task_name self = regression_name (metric self)"

text \<open>
  \<^verbatim>\<open>calculate_value\<close>, lines 117--149. The arguments \<^verbatim>\<open>context\<close> and \<^verbatim>\<open>render\<close> are
  received and not used.
\<close>

definition calculate_value ::
  "RegressionErrorBiasTableCalculation \<Rightarrow> 'c \<Rightarrow> ('v, 'z) RegressionErrorBiasTableResults_scheme
     \<Rightarrow> 'w list \<Rightarrow> SingleValue" where
  "calculate_value self ctx legacy_result render =
     (let v = (if error_bias legacy_result = None \<or> py_len (the (error_bias legacy_result)) = 0
               then 0
               else real (py_len (the (error_bias legacy_result))))
      in result self v)"

text \<open>\<^verbatim>\<open>get_additional_widgets\<close>, lines 165--175, and \<^verbatim>\<open>display_name\<close>, lines 177--179.\<close>

definition get_additional_widgets :: "RegressionErrorBiasTableCalculation \<Rightarrow> 'c \<Rightarrow> 'w list" where
  "get_additional_widgets self ctx = []"

definition display_name :: "RegressionErrorBiasTableCalculation \<Rightarrow> string" where
  "display_name self = ''Regression Error Bias Table''"

subsection \<open>Exceptions\<close>

text \<open>
  \<open>NameError\<close> is Python's own, raised when a global name is not bound. \<open>TaskNotFound\<close>
  and \<open>InvalidParameter\<close> are the two errors the spec names for the collaborators of the
  adapter; the module raises neither itself.
\<close>

datatype error = NameError string | TaskNotFound | InvalidParameter

subsection \<open>The legacy request\<close>

text \<open>
  \<^verbatim>\<open>legacy_metric\<close>, lines 96--106. The class \<^verbatim>\<open>LegacyRegressionErrorBiasTable\<close> is
  imported (lines 39--41), so its constructor is the parameter \<open>mk\<close>; it receives the two
  keyword arguments and returns the legacy metric or raises.
\<close>

definition legacy_metric ::
  "(string list option \<Rightarrow> real option \<Rightarrow> error + 'lm) \<Rightarrow> RegressionErrorBiasTableCalculation
     \<Rightarrow> error + 'lm" where
  "legacy_metric mk self = mk (columns (metric self)) (top_error (metric self))"

subsection \<open>Global names and \<^verbatim>\<open>_gen_input_data\<close>\<close>

text \<open>
  The names bound in the module's namespace once it is loaded: the ones every module has,
  the imported ones (lines 24--44) and the two classes (lines 48 and 86).
\<close>

definition module_globals :: "string list" where
  "module_globals =
    [''__name__'', ''__doc__'', ''__package__'', ''__loader__'', ''__spec__'', ''__file__'',
     ''__cached__'', ''__builtins__'',
     ''List'', ''Optional'', ''Dict'', ''Tuple'', ''TypeVar'', ''Generic'',
     ''abc'',
     ''SingleValue'', ''SingleValueMetric'', ''MetricResult'', ''get_default_render'',
     ''get_default_render_ref'',
     ''Context'',
     ''InputData'',
     ''BaseWidgetInfo'',
     ''LegacyMetricCalculation'',
     ''LegacyRegressionErrorBiasTable'',
     ''RegressionErrorBiasTableResults'',
     ''RegressionErrorBiasTable'',
     ''RegressionErrorBiasTableCalculation'']"

text \<open>The names of Python's \<^verbatim>\<open>builtins\<close> module (CPython 3.11), searched after the globals.\<close>

definition builtin_names :: "string list" where
  "builtin_names =
    [''ArithmeticError'', ''AssertionError'', ''AttributeError'', ''BaseException'',
     ''BaseExceptionGroup'', ''BlockingIOError'', ''BrokenPipeError'', ''BufferError'',
     ''BytesWarning'', ''ChildProcessError'', ''ConnectionAbortedError'',
     ''ConnectionError'', ''ConnectionRefusedError'', ''ConnectionResetError'',
     ''DeprecationWarning'', ''EOFError'', ''Ellipsis'', ''EncodingWarning'',
     ''EnvironmentError'', ''Exception'', ''ExceptionGroup'', ''False'',
     ''FileExistsError'', ''FileNotFoundError'', ''FloatingPointError'', ''FutureWarning'',
     ''GeneratorExit'', ''IOError'', ''ImportError'', ''ImportWarning'',
     ''IndentationError'', ''IndexError'', ''InterruptedError'', ''IsADirectoryError'',
     ''KeyError'', ''KeyboardInterrupt'', ''LookupError'', ''MemoryError'',
     ''ModuleNotFoundError'', ''NameError'', ''None'', ''NotADirectoryError'',
     ''NotImplemented'', ''NotImplementedError'', ''OSError'', ''OverflowError'',
     ''PendingDeprecationWarning'', ''PermissionError'', ''ProcessLookupError'',
     ''RecursionError'', ''ReferenceError'', ''ResourceWarning'', ''RuntimeError'',
     ''RuntimeWarning'', ''StopAsyncIteration'', ''StopIteration'', ''SyntaxError'',
     ''SyntaxWarning'', ''SystemError'', ''SystemExit'', ''TabError'', ''TimeoutError'',
     ''True'', ''TypeError'', ''UnboundLocalError'', ''UnicodeDecodeError'',
     ''UnicodeEncodeError'', ''UnicodeError'', ''UnicodeTranslateError'',
     ''UnicodeWarning'', ''UserWarning'', ''ValueError'', ''Warning'',
     ''ZeroDivisionError'', ''__build_class__'', ''__debug__'', ''__doc__'', ''__import__'',
     ''__loader__'', ''__name__'', ''__package__'', ''__spec__'', ''abs'', ''aiter'',
     ''all'', ''anext'', ''any'', ''ascii'', ''bin'', ''bool'', ''breakpoint'',
     ''bytearray'', ''bytes'', ''callable'', ''chr'', ''classmethod'', ''compile'',
     ''complex'', ''copyright'', ''credits'', ''delattr'', ''dict'', ''dir'', ''divmod'',
     ''enumerate'', ''eval'', ''exec'', ''exit'', ''filter'', ''float'', ''format'',
     ''frozenset'', ''getattr'', ''globals'', ''hasattr'', ''hash'', ''help'', ''hex'',
     ''id'', ''input'', ''int'', ''isinstance'', ''issubclass'', ''iter'', ''len'',
     ''license'', ''list'', ''locals'', ''map'', ''max'', ''memoryview'', ''min'', ''next'',
     ''object'', ''oct'', ''open'', ''ord'', ''pow'', ''print'', ''property'', ''quit'',
     ''range'', ''repr'', ''reversed'', ''round'', ''set'', ''setattr'', ''slice'',
     ''sorted'', ''staticmethod'', ''str'', ''sum'', ''super'', ''tuple'', ''type'',
     ''vars'', ''zip'']"

text \<open>
  Reading a name that the function does not assign: Python looks in the module's globals,
  then in the builtins, and raises \<^verbatim>\<open>NameError\<close> when neither binds it.
\<close>

definition name_bound :: "string \<Rightarrow> bool" where
  "name_bound n \<longleftrightarrow> n \<in> set module_globals \<or> n \<in> set builtin_names"

text \<open>
  \<^verbatim>\<open>_gen_input_data\<close>, lines 151--163 (an Isabelle name cannot start with an underscore).
  Its body is one call of the global \<^verbatim>\<open>_gen_regression_input_data\<close>. The parameter
  \<open>helper\<close> stands for whatever function that name would denote if it were bound.
\<close>

definition gen_input_data ::
  "('c \<Rightarrow> string option \<Rightarrow> error + 'i) \<Rightarrow> RegressionErrorBiasTableCalculation \<Rightarrow> 'c
     \<Rightarrow> string option \<Rightarrow> error + 'i" where
  "gen_input_data helper self ctx tn =
     (if name_bound ''_gen_regression_input_data''
      then helper ctx tn
      else Inl (NameError ''_gen_regression_input_data''))"

subsection \<open>The collaborators, from the spec\<close>

text \<open>
  Modelled from the spec: the execution context and its task lookup belong to the report
  engine, which is not part of the module. The spec gives ``a Context object exposing
  task-to-column resolution'' and \<^verbatim>\<open>resolve_task_inputs(context, task_name)\<close>, which
  ``looks up the target/prediction column names registered under \<^verbatim>\<open>task_name\<close> in the
  execution context; fails with TaskNotFound if no regression task with that name was
  registered''.
\<close>

record Context =
  regression_tasks :: "(string \<times> (string \<times> string)) list"

definition resolve_task_inputs :: "Context \<Rightarrow> string option \<Rightarrow> error + (string \<times> string)" where
  "resolve_task_inputs ctx tn =
     (case tn of
        None \<Rightarrow> Inl TaskNotFound
      | Some n \<Rightarrow>
          (case map_of (regression_tasks ctx) n of
             None \<Rightarrow> Inl TaskNotFound
           | Some cols \<Rightarrow> Inr cols))"

text \<open>
  Modelled from the spec: the base class \<^verbatim>\<open>LegacyMetricCalculation\<close> that hands the legacy
  renderer's artifacts to the report is imported. The spec gives
  \<^verbatim>\<open>forward_render_artifacts(legacy_render)\<close>, which ``returns the artifacts unchanged'';
  the comment at lines 172--174 says that the base class fills the widget list from the
  legacy renderer's output and that the method adds the extra ones.
\<close>

definition forward_render_artifacts ::
  "RegressionErrorBiasTableCalculation \<Rightarrow> 'c \<Rightarrow> 'w list \<Rightarrow> 'w list" where
  "forward_render_artifacts self ctx legacy_render =
     legacy_render @ get_additional_widgets self ctx"

text \<open>
  Modelled from the spec: the driver of one run, also in the imported base class. The
  spec's control flow is ``Adapter builds legacy request \<open>\<rightarrow>\<close> external legacy engine
  computes \<open>\<rightarrow>\<close> Adapter reduces result'', with the task-specific input resolution supplied
  to the engine before it computes. The legacy engine is the parameter \<open>engine\<close>.
\<close>

definition calculate ::
  "(string list option \<Rightarrow> real option \<Rightarrow> error + 'lm) \<Rightarrow> ('c \<Rightarrow> string option \<Rightarrow> error + 'i)
     \<Rightarrow> ('lm \<Rightarrow> 'i \<Rightarrow> error + (('v, 'z) RegressionErrorBiasTableResults_scheme \<times> 'w list))
     \<Rightarrow> RegressionErrorBiasTableCalculation \<Rightarrow> 'c \<Rightarrow> error + (SingleValue \<times> 'w list)" where
  "calculate mk helper engine self ctx =
     (case legacy_metric mk self of
        Inl e \<Rightarrow> Inl e
      | Inr lm \<Rightarrow>
          (case gen_input_data helper self ctx (Some (task_name self)) of
             Inl e \<Rightarrow> Inl e
           | Inr inp \<Rightarrow>
               (case engine lm inp of
                  Inl e \<Rightarrow> Inl e
                | Inr (legacy_result, render) \<Rightarrow>
                    Inr (calculate_value self ctx legacy_result render,
                         forward_render_artifacts self ctx render))))"

subsection \<open>Calls on a store\<close>

text \<open>
  For the frame properties the two objects the methods can reach, \<^verbatim>\<open>self\<close> (with
  \<^verbatim>\<open>self.metric\<close>) and the legacy result, are kept in a store, and a method call maps the
  store before the call to its return value and the store after it. No method body assigns
  to an attribute of either object, so each branch hands the store on as it received it.
\<close>

record 'v store =
  self_obj :: RegressionErrorBiasTableCalculation
  legacy_obj :: "'v RegressionErrorBiasTableResults"

datatype ('c, 'w) call =
    Call_legacy_metric
  | Call_task_name
  | Call_calculate_value 'c "'w list"
  | Call_get_additional_widgets 'c

datatype ('lm, 'w) ret =
    Ret_legacy_metric "error + 'lm"
  | Ret_task_name string
  | Ret_calculate_value SingleValue
  | Ret_get_additional_widgets "'w list"

fun exec_call ::
  "(string list option \<Rightarrow> real option \<Rightarrow> error + 'lm) \<Rightarrow> 'v store \<Rightarrow> ('c, 'w) call
     \<Rightarrow> ('lm, 'w) ret \<times> 'v store" where
  "exec_call mk s Call_legacy_metric = (Ret_legacy_metric (legacy_metric mk (self_obj s)), s)"
| "exec_call mk s Call_task_name = (Ret_task_name (task_name (self_obj s)), s)"
| "exec_call mk s (Call_calculate_value ctx render) =
     (Ret_calculate_value (calculate_value (self_obj s) ctx (legacy_obj s) render), s)"
| "exec_call mk s (Call_get_additional_widgets ctx) =
     (Ret_get_additional_widgets (get_additional_widgets (self_obj s) ctx), s)"

fun exec_calls ::
  "(string list option \<Rightarrow> real option \<Rightarrow> error + 'lm) \<Rightarrow> 'v store \<Rightarrow> ('c, 'w) call list
     \<Rightarrow> ('lm, 'w) ret list \<times> 'v store" where
  "exec_calls mk s [] = ([], s)"
| "exec_calls mk s (c # cs) =
     (case exec_call mk s c of
        (r, s') \<Rightarrow> (case exec_calls mk s' cs of (rs, s'') \<Rightarrow> (r # rs, s'')))"

text \<open>The number of entries of the bias mapping; an absent mapping has none.\<close>

definition bias_entries :: "('v, 'z) RegressionErrorBiasTableResults_scheme \<Rightarrow> nat" where
  "bias_entries legacy_result =
     (case error_bias legacy_result of None \<Rightarrow> 0 | Some d \<Rightarrow> py_len d)"

section \<open>Properties\<close>

lemma py_len_card_dom: "distinct (map fst d) \<Longrightarrow> py_len d = card (dom (map_of d))"
  using distinct_card [of "map fst d"]
  by (simp add: py_len_def dom_map_of_conv_image_fst)

lemma calculate_value_bias_entries:
  "calculate_value self ctx lr render = \<lparr>val = real (bias_entries lr)\<rparr>"
  by (cases "error_bias lr") (simp_all add: calculate_value_def result_def bias_entries_def)

lemma name_not_bound: "\<not> name_bound ''_gen_regression_input_data''"
  by (simp add: name_bound_def module_globals_def builtin_names_def)

text \<open>The names the method bodies do read are bound: imported ones and builtins.\<close>

lemma names_bound:
  "name_bound ''InputData'' \<and> name_bound ''LegacyRegressionErrorBiasTable''
   \<and> name_bound ''len'' \<and> name_bound ''float''"
  by (simp add: name_bound_def module_globals_def builtin_names_def)

lemma exec_call_store: "snd (exec_call mk s c) = s"
  by (cases c) simp_all

lemma exec_calls_store: "snd (exec_calls mk s cs) = s"
proof (induction cs arbitrary: s)
  case Nil
  show ?case by simp
next
  case (Cons c cs)
  obtain r where step: "exec_call mk s c = (r, s)"
    using exec_call_store [of mk s c] by (cases "exec_call mk s c") simp
  obtain rs where rest: "exec_calls mk s cs = (rs, s)"
    using Cons.IH [of s] by (cases "exec_calls mk s cs") simp
  show ?case
    by (simp add: step rest)
qed

text \<open>
  C1. The scalar reduction returns 0.0 when the bias mapping is \<^verbatim>\<open>None\<close> or has no entry,
  and the number of entries as a float otherwise: for a mapping of \<open>N\<close> entries it is
  \<open>float(N)\<close>, also at \<open>N = 0\<close>.
\<close>

theorem calculate_value_count:
  "val (calculate_value self ctx lr render)
     = (case error_bias lr of None \<Rightarrow> 0 | Some d \<Rightarrow> real (py_len d))
   \<and> val (calculate_value self ctx (lr\<lparr>error_bias := None\<rparr>) render) = 0
   \<and> val (calculate_value self ctx (lr\<lparr>error_bias := Some []\<rparr>) render) = 0
   \<and> val (calculate_value self ctx (lr\<lparr>error_bias := Some d'\<rparr>) render) = real (length d')"
  by (cases "error_bias lr") (simp_all add: calculate_value_def result_def py_len_def)

text \<open>
  C2 (evidence). With the regression task \<^verbatim>\<open>default\<close> registered on the columns
  \<^verbatim>\<open>target\<close> and \<^verbatim>\<open>prediction\<close> (test\_issue\_1805.py, lines 37--40) and a declaration
  built without arguments, the lookup the spec describes finds the two columns, and with no
  task registered it fails with \<open>TaskNotFound\<close>; \<^verbatim>\<open>_gen_input_data\<close> raises
  \<^verbatim>\<open>NameError\<close> in both runs, whatever helper the missing name was meant to denote.
\<close>

theorem gen_input_data_default_task:
  "resolve_task_inputs \<lparr>regression_tasks = [(''default'', (''target'', ''prediction''))]\<rparr>
       (Some (task_name \<lparr>metric = new_RegressionErrorBiasTable None None None\<rparr>))
     = Inr (''target'', ''prediction'')
   \<and> gen_input_data resolve_task_inputs \<lparr>metric = new_RegressionErrorBiasTable None None None\<rparr>
       \<lparr>regression_tasks = [(''default'', (''target'', ''prediction''))]\<rparr>
       (Some (task_name \<lparr>metric = new_RegressionErrorBiasTable None None None\<rparr>))
     = Inl (NameError ''_gen_regression_input_data'')
   \<and> resolve_task_inputs \<lparr>regression_tasks = []\<rparr>
       (Some (task_name \<lparr>metric = new_RegressionErrorBiasTable None None None\<rparr>))
     = Inl TaskNotFound
   \<and> gen_input_data resolve_task_inputs \<lparr>metric = new_RegressionErrorBiasTable None None None\<rparr>
       \<lparr>regression_tasks = []\<rparr>
       (Some (task_name \<lparr>metric = new_RegressionErrorBiasTable None None None\<rparr>))
     \<noteq> Inl TaskNotFound"
  by (simp add: gen_input_data_def name_not_bound resolve_task_inputs_def task_name_def
      new_RegressionErrorBiasTable_def)

text \<open>
  C3. For every context and every task name, \<^verbatim>\<open>_gen_input_data\<close> raises \<^verbatim>\<open>NameError\<close>:
  the name \<^verbatim>\<open>_gen_regression_input_data\<close> is bound neither in the module nor in the
  builtins. Hence a run of the adapter ends in an exception before the legacy engine is
  called, whatever the engine is.
\<close>

theorem gen_input_data_name_error:
  "\<not> name_bound ''_gen_regression_input_data''
   \<and> gen_input_data helper self ctx tn = Inl (NameError ''_gen_regression_input_data'')
   \<and> calculate mk helper engine self ctx
     = (case legacy_metric mk self of
          Inl e \<Rightarrow> Inl e
        | Inr lm \<Rightarrow> Inl (NameError ''_gen_regression_input_data''))
   \<and> isl (calculate mk helper engine self ctx)"
  using name_not_bound
  by (cases "legacy_metric mk self") (simp_all add: calculate_def gen_input_data_def)

text \<open>
  C4. The published scalar depends on the number of entries of the bias mapping and on
  nothing else: two legacy results with the same number of entries give the same result,
  for any two adapters, contexts and widget lists; in particular when one mapping lists the
  entries of the other in another order.
\<close>

theorem calculate_value_deterministic:
  "(bias_entries lr1 = bias_entries lr2
      \<longrightarrow> calculate_value self1 ctx1 lr1 render1 = calculate_value self2 ctx2 lr2 render2)
   \<and> (mset d1 = mset d2
      \<longrightarrow> calculate_value self1 ctx1 (lr1\<lparr>error_bias := Some d1\<rparr>) render1
          = calculate_value self2 ctx2 (lr2\<lparr>error_bias := Some d2\<rparr>) render2)"
proof (intro conjI impI)
  assume "bias_entries lr1 = bias_entries lr2"
  then show "calculate_value self1 ctx1 lr1 render1 = calculate_value self2 ctx2 lr2 render2"
    by (simp add: calculate_value_bias_entries)
next
  assume "mset d1 = mset d2"
  then have "length d1 = length d2"
    by (rule mset_eq_length)
  then show "calculate_value self1 ctx1 (lr1\<lparr>error_bias := Some d1\<rparr>) render1
      = calculate_value self2 ctx2 (lr2\<lparr>error_bias := Some d2\<rparr>) render2"
    by (simp add: calculate_value_bias_entries bias_entries_def py_len_def)
qed

theorem calculate_value_deterministic_witness:
  "bias_entries \<lparr>error_bias = Some [(''age'', 1::nat), (''income'', 2)]\<rparr>
     = bias_entries \<lparr>error_bias = Some [(''income'', 7::nat), (''target'', 9)]\<rparr>
   \<and> calculate_value \<lparr>metric = new_RegressionErrorBiasTable None None None\<rparr> (0::nat)
       \<lparr>error_bias = Some [(''age'', 1::nat), (''income'', 2)]\<rparr> ([]::string list)
     = calculate_value
       \<lparr>metric = new_RegressionErrorBiasTable (Some ''pricing_model'') None None\<rparr> (1::nat)
       \<lparr>error_bias = Some [(''income'', 7::nat), (''target'', 9)]\<rparr> [''widget'']
   \<and> mset [(''age'', 1::nat), (''income'', 2)] = mset [(''income'', 2), (''age'', 1)]
   \<and> calculate_value \<lparr>metric = new_RegressionErrorBiasTable None None None\<rparr> (0::nat)
       \<lparr>error_bias = Some [(''age'', 1::nat), (''income'', 2)]\<rparr> ([]::string list)
     = calculate_value
       \<lparr>metric = new_RegressionErrorBiasTable (Some ''pricing_model'') None None\<rparr> (1::nat)
       \<lparr>error_bias = Some [(''income'', 2), (''age'', 1::nat)]\<rparr> [''widget'']"
proof -
  have size: "bias_entries \<lparr>error_bias = Some [(''age'', 1::nat), (''income'', 2)]\<rparr>
     = bias_entries \<lparr>error_bias = Some [(''income'', 7::nat), (''target'', 9)]\<rparr>"
    by (simp add: bias_entries_def py_len_def)
  have order: "mset [(''age'', 1::nat), (''income'', 2)] = mset [(''income'', 2), (''age'', 1)]"
    by simp
  note inst = calculate_value_deterministic
      [of "\<lparr>error_bias = Some [(''age'', 1::nat), (''income'', 2)]\<rparr>"
          "\<lparr>error_bias = Some [(''income'', 7::nat), (''target'', 9)]\<rparr>"
          "\<lparr>metric = new_RegressionErrorBiasTable None None None\<rparr>" "0::nat" "[]::string list"
          "\<lparr>metric = new_RegressionErrorBiasTable (Some ''pricing_model'') None None\<rparr>"
          "1::nat" "[''widget'']"
          "[(''age'', 1::nat), (''income'', 2)]" "[(''income'', 2), (''age'', 1)]"]
  have by_size: "calculate_value \<lparr>metric = new_RegressionErrorBiasTable None None None\<rparr> (0::nat)
       \<lparr>error_bias = Some [(''age'', 1::nat), (''income'', 2)]\<rparr> ([]::string list)
     = calculate_value
       \<lparr>metric = new_RegressionErrorBiasTable (Some ''pricing_model'') None None\<rparr> (1::nat)
       \<lparr>error_bias = Some [(''income'', 7::nat), (''target'', 9)]\<rparr> [''widget'']"
    using inst [THEN conjunct1, THEN mp, OF size] .
  have "calculate_value \<lparr>metric = new_RegressionErrorBiasTable None None None\<rparr> (0::nat)
       (\<lparr>error_bias = Some [(''age'', 1::nat), (''income'', 2)]\<rparr>
          \<lparr>error_bias := Some [(''age'', 1::nat), (''income'', 2)]\<rparr>) ([]::string list)
     = calculate_value
       \<lparr>metric = new_RegressionErrorBiasTable (Some ''pricing_model'') None None\<rparr> (1::nat)
       (\<lparr>error_bias = Some [(''income'', 7::nat), (''target'', 9)]\<rparr>
          \<lparr>error_bias := Some [(''income'', 2), (''age'', 1)]\<rparr>) [''widget'']"
    using inst [THEN conjunct2, THEN mp, OF order] .
  then have by_order: "calculate_value \<lparr>metric = new_RegressionErrorBiasTable None None None\<rparr> (0::nat)
       \<lparr>error_bias = Some [(''age'', 1::nat), (''income'', 2)]\<rparr> ([]::string list)
     = calculate_value
       \<lparr>metric = new_RegressionErrorBiasTable (Some ''pricing_model'') None None\<rparr> (1::nat)
       \<lparr>error_bias = Some [(''income'', 2), (''age'', 1::nat)]\<rparr> [''widget'']"
    by simp
  from size by_size order by_order show ?thesis
    by (intro conjI)
qed

text \<open>
  C5. \<^verbatim>\<open>legacy_metric\<close> hands the declaration's \<^verbatim>\<open>columns\<close> and \<^verbatim>\<open>top_error\<close> to the
  legacy constructor as they are and returns what the constructor returns. It checks
  nothing itself: with a constructor that stores its arguments it returns for every
  \<^verbatim>\<open>top_error\<close>, inside \<open>[0, 0.5]\<close> or not, and an exception of the constructor comes out
  as it is.
\<close>

theorem legacy_metric_forwards:
  "legacy_metric mk self = mk (columns (metric self)) (top_error (metric self))
   \<and> legacy_metric (\<lambda>cols te. Inr (cols, te))
       (self\<lparr>metric := (metric self)\<lparr>top_error := Some t\<rparr>\<rparr>)
     = Inr (columns (metric self), Some t)
   \<and> legacy_metric (\<lambda>cols te. Inl e) self = Inl e"
  by (simp add: legacy_metric_def)

text \<open>
  C6. The scalar is never negative, for every legacy result and every declaration: with all
  features analysed and with the columns restricted to \<^verbatim>\<open>['age']\<close> or to
  \<^verbatim>\<open>['age', 'income']\<close>.
\<close>

theorem calculate_value_nonneg:
  "0 \<le> val (calculate_value self ctx lr render)
   \<and> 0 \<le> val (calculate_value (self\<lparr>metric := (metric self)\<lparr>columns := None\<rparr>\<rparr>) ctx lr render)
   \<and> 0 \<le> val (calculate_value (self\<lparr>metric := (metric self)\<lparr>columns := Some [''age'']\<rparr>\<rparr>)
        ctx lr render)
   \<and> 0 \<le> val (calculate_value
        (self\<lparr>metric := (metric self)\<lparr>columns := Some [''age'', ''income'']\<rparr>\<rparr>) ctx lr render)"
  by (simp add: calculate_value_bias_entries)

text \<open>
  C7. The adapter adds no artifact of its own: \<^verbatim>\<open>get_additional_widgets\<close> returns the
  empty list for every context, so the legacy renderer's artifacts reach the report as they
  are.
\<close>

theorem get_additional_widgets_empty:
  "get_additional_widgets self ctx = []
   \<and> forward_render_artifacts self ctx legacy_render = legacy_render"
  by (simp add: get_additional_widgets_def forward_render_artifacts_def)

text \<open>
  C8. No call of \<^verbatim>\<open>legacy_metric\<close>, \<^verbatim>\<open>task_name\<close>, \<^verbatim>\<open>calculate_value\<close> or
  \<^verbatim>\<open>get_additional_widgets\<close>, and no sequence of such calls, changes the declaration or
  the legacy result: the store after the calls is the store before them, field by field.
  Nothing is remembered from one call to the next: a call returns the same after any
  sequence of calls as before it.
\<close>

theorem adapter_calls_frame:
  "snd (exec_call mk s c) = s
   \<and> snd (exec_calls mk s cs) = s
   \<and> regression_name (metric (self_obj (snd (exec_calls mk s cs))))
     = regression_name (metric (self_obj s))
   \<and> columns (metric (self_obj (snd (exec_calls mk s cs)))) = columns (metric (self_obj s))
   \<and> top_error (metric (self_obj (snd (exec_calls mk s cs)))) = top_error (metric (self_obj s))
   \<and> error_bias (legacy_obj (snd (exec_calls mk s cs))) = error_bias (legacy_obj s)
   \<and> fst (exec_call mk (snd (exec_calls mk s cs)) c) = fst (exec_call mk s c)"
  by (simp add: exec_call_store exec_calls_store)

text \<open>
  C9. The legacy request does not depend on \<^verbatim>\<open>regression_name\<close>: two adapters whose
  declarations agree on \<^verbatim>\<open>columns\<close> and \<^verbatim>\<open>top_error\<close> build the same legacy request.
  Of the methods only \<^verbatim>\<open>task_name\<close> reads the field: it returns it, and
  \<^verbatim>\<open>calculate_value\<close> and \<^verbatim>\<open>get_additional_widgets\<close> return the same for any two
  adapters.
\<close>

theorem legacy_metric_ignores_regression_name:
  assumes "columns (metric self1) = columns (metric self2)"
    and "top_error (metric self1) = top_error (metric self2)"
  shows "legacy_metric mk self1 = legacy_metric mk self2
   \<and> task_name self1 = regression_name (metric self1)
   \<and> calculate_value self1 ctx lr render = calculate_value self2 ctx lr render
   \<and> (get_additional_widgets self1 ctx :: 'w list) = get_additional_widgets self2 ctx"
  using assms
  by (simp add: legacy_metric_def task_name_def calculate_value_bias_entries
      get_additional_widgets_def)

theorem legacy_metric_ignores_regression_name_witness:
  "columns (metric \<lparr>metric = new_RegressionErrorBiasTable None
        (Some (Some [''age'', ''income''])) (Some (Some (1 / 10)))\<rparr>)
     = columns (metric \<lparr>metric = new_RegressionErrorBiasTable (Some ''pricing_model'')
        (Some (Some [''age'', ''income''])) (Some (Some (1 / 10)))\<rparr>)
   \<and> top_error (metric \<lparr>metric = new_RegressionErrorBiasTable None
        (Some (Some [''age'', ''income''])) (Some (Some (1 / 10)))\<rparr>)
     = top_error (metric \<lparr>metric = new_RegressionErrorBiasTable (Some ''pricing_model'')
        (Some (Some [''age'', ''income''])) (Some (Some (1 / 10)))\<rparr>)
   \<and> task_name \<lparr>metric = new_RegressionErrorBiasTable None
        (Some (Some [''age'', ''income''])) (Some (Some (1 / 10)))\<rparr>
     \<noteq> task_name \<lparr>metric = new_RegressionErrorBiasTable (Some ''pricing_model'')
        (Some (Some [''age'', ''income''])) (Some (Some (1 / 10)))\<rparr>
   \<and> legacy_metric (\<lambda>cols te. Inr (cols, te) :: error + (string list option \<times> real option))
        \<lparr>metric = new_RegressionErrorBiasTable None
          (Some (Some [''age'', ''income''])) (Some (Some (1 / 10)))\<rparr>
     = legacy_metric (\<lambda>cols te. Inr (cols, te))
        \<lparr>metric = new_RegressionErrorBiasTable (Some ''pricing_model'')
          (Some (Some [''age'', ''income''])) (Some (Some (1 / 10)))\<rparr>"
proof -
  have cols: "columns (metric \<lparr>metric = new_RegressionErrorBiasTable None
        (Some (Some [''age'', ''income''])) (Some (Some (1 / 10)))\<rparr>)
     = columns (metric \<lparr>metric = new_RegressionErrorBiasTable (Some ''pricing_model'')
        (Some (Some [''age'', ''income''])) (Some (Some (1 / 10)))\<rparr>)"
    by (simp add: new_RegressionErrorBiasTable_def)
  have te: "top_error (metric \<lparr>metric = new_RegressionErrorBiasTable None
        (Some (Some [''age'', ''income''])) (Some (Some (1 / 10)))\<rparr>)
     = top_error (metric \<lparr>metric = new_RegressionErrorBiasTable (Some ''pricing_model'')
        (Some (Some [''age'', ''income''])) (Some (Some (1 / 10)))\<rparr>)"
    by (simp add: new_RegressionErrorBiasTable_def)
  have names: "task_name \<lparr>metric = new_RegressionErrorBiasTable None
        (Some (Some [''age'', ''income''])) (Some (Some (1 / 10)))\<rparr>
     \<noteq> task_name \<lparr>metric = new_RegressionErrorBiasTable (Some ''pricing_model'')
        (Some (Some [''age'', ''income''])) (Some (Some (1 / 10)))\<rparr>"
    by (simp add: task_name_def new_RegressionErrorBiasTable_def)
  have same: "legacy_metric (\<lambda>cols te. Inr (cols, te) :: error + (string list option \<times> real option))
        \<lparr>metric = new_RegressionErrorBiasTable None
          (Some (Some [''age'', ''income''])) (Some (Some (1 / 10)))\<rparr>
     = legacy_metric (\<lambda>cols te. Inr (cols, te))
        \<lparr>metric = new_RegressionErrorBiasTable (Some ''pricing_model'')
          (Some (Some [''age'', ''income''])) (Some (Some (1 / 10)))\<rparr>"
    using legacy_metric_ignores_regression_name
      [OF cols te,
       of "\<lambda>cols te. Inr (cols, te) :: error + (string list option \<times> real option)"
          "()" "\<lparr>error_bias = (None :: unit py_dict option)\<rparr>" "[] :: unit list",
       THEN conjunct1] .
  from cols te names same show ?thesis
    by (intro conjI)
qed

text \<open>
  C10. A declaration built without arguments has \<^verbatim>\<open>regression_name\<close> \<^verbatim>\<open>"default"\<close>,
  \<^verbatim>\<open>columns\<close> \<^verbatim>\<open>None\<close> and \<^verbatim>\<open>top_error\<close> \<^verbatim>\<open>None\<close>, so \<^verbatim>\<open>task_name\<close> of an adapter over
  it is \<^verbatim>\<open>"default"\<close>; the same holds for the name whenever \<^verbatim>\<open>regression_name\<close> alone is
  left out.
\<close>

theorem default_declaration:
  "regression_name (new_RegressionErrorBiasTable None None None) = ''default''
   \<and> columns (new_RegressionErrorBiasTable None None None) = None
   \<and> top_error (new_RegressionErrorBiasTable None None None) = None
   \<and> task_name \<lparr>metric = new_RegressionErrorBiasTable None None None\<rparr> = ''default''
   \<and> task_name \<lparr>metric = new_RegressionErrorBiasTable None cols te\<rparr> = ''default''"
  by (simp add: new_RegressionErrorBiasTable_def task_name_def)

end
